theory Spec2Isabelle
  imports
    Complex_Main
    "HOL-Library.Word"
    "HOL-Library.Char_ord"
    "HOL-Library.List_Lexorder"
    "HOL-Library.Multiset"
    "HOL-Library.AList"
begin

unbundle bit_operations_syntax

section \<open>JavaScript values used by the parser and the analyzer\<close>

text \<open>
  A string is a list of code units. The model covers the code units below 256, where
  a \<open>for ... of\<close> loop over a string visits one code unit per step and
  \<open>charCodeAt(0)\<close> of the visited piece is \<open>of_char\<close>.

  A number is a finite real, an infinity or NaN; arithmetic on finite numbers is the
  arithmetic of the reals. A field of an object received as \<open>unknown\<close> is
  \<open>undefined\<close>, \<open>null\<close> or a value of the kind the interface declares.
\<close>

datatype jsnum = Fin real | PosInf | NegInf | NaN

datatype 'a field = Undefined | Null | Val 'a

text \<open>\<open>x ?? d\<close> followed by \<open>String(...)\<close>, on a field that holds a string.\<close>

fun coalesce :: "string field \<Rightarrow> string \<Rightarrow> string" where
  "coalesce (Val s) d = s"
| "coalesce Undefined d = d"
| "coalesce Null d = d"

text \<open>\<open>Number(x)\<close>: \<open>undefined\<close> becomes NaN, \<open>null\<close> becomes 0.\<close>

fun toNumber :: "jsnum field \<Rightarrow> jsnum" where
  "toNumber (Val n) = n"
| "toNumber Undefined = NaN"
| "toNumber Null = Fin 0"

fun isFinite :: "jsnum \<Rightarrow> bool" where
  "isFinite (Fin r) = True"
| "isFinite PosInf = False"
| "isFinite NegInf = False"
| "isFinite NaN = False"

text \<open>\<open>x > 0\<close> on numbers: false for NaN.\<close>

fun gt0 :: "jsnum \<Rightarrow> bool" where
  "gt0 (Fin r) = (0 < r)"
| "gt0 PosInf = True"
| "gt0 NegInf = False"
| "gt0 NaN = False"

text \<open>White space and line terminators of the language, among the code units below 256.\<close>

definition isWhiteSpace :: "char \<Rightarrow> bool" where
  "isWhiteSpace c = (of_char c \<in> {9, 10, 11, 12, 13, 32, 160 :: nat})"

definition trim :: "string \<Rightarrow> string" where
  "trim s = rev (dropWhile isWhiteSpace (rev (dropWhile isWhiteSpace s)))"

text \<open>
  \<open>toLowerCase\<close>: among the code units below 256 the letters with a lower-case
  partner are A to Z and the letters from 192 to 222 other than 215; the partner is 32
  code units higher. \<open>s.includes(k)\<close> (\<open>includes_str\<close>) holds when \<open>k\<close> occurs in \<open>s\<close> as
  a run of consecutive code units.
\<close>

definition toLowerChar :: "char \<Rightarrow> char" where
  "toLowerChar c =
     (let n = of_char c :: nat in
      if (65 \<le> n \<and> n \<le> 90) \<or> (192 \<le> n \<and> n \<le> 222 \<and> n \<noteq> 215)
      then char_of (n + 32) else c)"

definition toLowerCase :: "string \<Rightarrow> string" where
  "toLowerCase s = map toLowerChar s"

fun includes_str :: "string \<Rightarrow> string \<Rightarrow> bool" where
  "includes_str [] k = (k = [])"
| "includes_str (c # cs) k = (take (length k) (c # cs) = k \<or> includes_str cs k)"

text \<open>
  A \<open>Set\<close> of strings keeps its members in insertion order; \<open>add\<close> of a
  member leaves it as it is. A \<open>Map\<close> with string keys that is later read in
  insertion order is an association list under \<open>AList.update\<close>, which replaces the
  value of a present key in place and appends an absent one.
\<close>

definition set_add :: "string list \<Rightarrow> string \<Rightarrow> string list" where
  "set_add xs x = (if x \<in> set xs then xs else xs @ [x])"

section \<open>types/network.ts\<close>

record node =
  node_id :: string
  name :: string
  label :: string
  group :: int
  inDegree :: "jsnum option"
  outDegree :: "jsnum option"
  betweenness :: "jsnum option"
  closeness :: "jsnum option"
  eigenvector :: "jsnum option"
  community :: "int option"

record edge =
  source :: string
  target :: string
  type :: string
  weight :: real

text \<open>The object literal \<open>{id, name, label: name, group: 1}\<close>.\<close>

definition newNode :: "string \<Rightarrow> string \<Rightarrow> node" where
  "newNode i n =
     \<lparr>node_id = i, name = n, label = n, group = 1, inDegree = None, outDegree = None,
      betweenness = None, closeness = None, eigenvector = None, community = None\<rparr>"

record parse_result =
  nodes :: "node list"
  edges :: "edge list"

section \<open>parser.ts: the relationship tuples of the oracle\<close>

record raw_rel =
  r_from :: "string field"
  r_to :: "string field"
  r_type :: "string field"
  r_weight :: "jsnum field"

text \<open>
  The callback of \<open>relationships.map\<close> in \<open>processWithGemini\<close>. An entry of
  the array that is not an object is \<open>None\<close>; the callback's \<open>null\<close> is
  \<open>None\<close> as well.
\<close>

definition canonicalEdge :: "raw_rel option \<Rightarrow> edge option" where
  "canonicalEdge rel =
     (case rel of
        None \<Rightarrow> None
      | Some row \<Rightarrow>
          (let src = trim (coalesce (r_from row) '''');
               tgt = trim (coalesce (r_to row) '''');
               t = trim (coalesce (r_type row) ''general'');
               ty = (if t = '''' then ''general'' else t);
               rawWeight = toNumber (r_weight row);
               w = (if isFinite rawWeight \<and> gt0 rawWeight
                    then (case rawWeight of Fin r \<Rightarrow> r | _ \<Rightarrow> 1) else 1)
           in if src = '''' \<or> tgt = '''' \<or> src = tgt then None
              else Some \<lparr>source = src, target = tgt, type = ty, weight = w\<rparr>))"

definition canonicalEdges :: "raw_rel option list \<Rightarrow> edge list" where
  "canonicalEdges relationships = List.map_filter canonicalEdge relationships"

text \<open>
  The canonical names: the trimmed, non-empty entries of \<open>students\<close>, then the
  endpoints of the canonical edges, each name once, in the order of first arrival.
\<close>

definition canonicalNameSet :: "string field list \<Rightarrow> edge list \<Rightarrow> string list" where
  "canonicalNameSet students ces =
     foldl (\<lambda>s e. set_add (set_add s (source e)) (target e))
       (foldl (\<lambda>s student. let n = trim (coalesce student '''') in
                 if n = '''' then s else set_add s n) [] students)
       ces"

text \<open>
  \<open>edgeMap\<close>: one entry per key string; a tuple whose key is present adds its
  weight to the entry, which keeps its place and its other fields.
\<close>

definition mergeEdge ::
  "(edge \<Rightarrow> string) \<Rightarrow> (string \<times> edge) list \<Rightarrow> edge \<Rightarrow> (string \<times> edge) list" where
  "mergeEdge key edgeMap e =
     (case map_of edgeMap (key e) of
        Some existing \<Rightarrow>
          AList.update (key e) (existing\<lparr>weight := weight existing + weight e\<rparr>) edgeMap
      | None \<Rightarrow> AList.update (key e) e edgeMap)"

definition mergeEdges :: "(edge \<Rightarrow> string) \<Rightarrow> edge list \<Rightarrow> edge list" where
  "mergeEdges key es = map snd (foldl (mergeEdge key) [] es)"

text \<open>The key \<open>`${sourceId}::${targetId}::${edge.type}`\<close> of \<open>processWithGemini\<close>.\<close>

definition geminiKey :: "edge \<Rightarrow> string" where
  "geminiKey e = source e @ ''::'' @ target e @ ''::'' @ type e"

text \<open>
  The second loop over the canonical edges: the names are replaced by their ids, and a
  tuple is skipped when an id is missing or empty or the two ids are equal.
\<close>

definition resolveEdge :: "(string \<rightharpoonup> string) \<Rightarrow> edge \<Rightarrow> edge option" where
  "resolveEdge nameToId e =
     (case (nameToId (source e), nameToId (target e)) of
        (Some sourceId, Some targetId) \<Rightarrow>
          if sourceId = '''' \<or> targetId = '''' \<or> sourceId = targetId then None
          else Some \<lparr>source = sourceId, target = targetId, type = type e, weight = weight e\<rparr>
      | _ \<Rightarrow> None)"

text \<open>
  \<open>processWithGemini\<close> after the response has arrived. \<open>crypto.randomUUID()\<close>
  is a parameter: \<open>randomUUID k\<close> is what the call for the \<open>k\<close>-th name returns.
  \<open>geminiNameToId\<close> is the map \<open>nameToId\<close>, and \<open>resolvedEdges\<close> are the
  tuples that reach \<open>edgeMap\<close>, in order.
\<close>

definition geminiIds :: "(nat \<Rightarrow> string) \<Rightarrow> string list \<Rightarrow> string list" where
  "geminiIds randomUUID names = map (\<lambda>k. ''STU_'' @ randomUUID k) [0..<length names]"

definition geminiNameToId ::
  "(nat \<Rightarrow> string) \<Rightarrow> string field list \<Rightarrow> raw_rel option list \<Rightarrow> (string \<rightharpoonup> string)" where
  "geminiNameToId randomUUID students relationships =
     (let names = canonicalNameSet students (canonicalEdges relationships)
      in map_of (zip names (geminiIds randomUUID names)))"

definition resolvedEdges ::
  "(nat \<Rightarrow> string) \<Rightarrow> string field list \<Rightarrow> raw_rel option list \<Rightarrow> edge list" where
  "resolvedEdges randomUUID students relationships =
     List.map_filter (resolveEdge (geminiNameToId randomUUID students relationships))
       (canonicalEdges relationships)"

definition processWithGemini ::
  "(nat \<Rightarrow> string) \<Rightarrow> string field list \<Rightarrow> raw_rel option list \<Rightarrow> parse_result" where
  "processWithGemini randomUUID students relationships =
     (let ces = canonicalEdges relationships;
          names = canonicalNameSet students ces
      in \<lparr>nodes = map (\<lambda>(i, n). newNode i n) (zip (geminiIds randomUUID names) names),
          edges = mergeEdges geminiKey (resolvedEdges randomUUID students relationships)\<rparr>)"

section \<open>parser.ts: processCsvData\<close>

text \<open>
  The rows are what the CSV library returns with \<open>header: true\<close>: for each row the
  column names with the cell texts. The keyword lists hold the keywords of the source
  that can occur in a string of the modelled code units; its Korean keywords cannot.
  For the same reason no key of the source's \<open>typeMap\<close> occurs in a column name of
  the model; the table is a parameter of \<open>getRelType\<close>.
\<close>

type_synonym row = "(string \<times> string) list"

datatype csv_error = EmptyFile | TooFewColumns | NoRelationshipColumns

definition respondentKeywords :: "string list" where
  "respondentKeywords = [''name'', ''student'', ''respondent'']"

definition excludeKeywords :: "string list" where
  "excludeKeywords = [''timestamp'', ''time'']"

definition metadataKeywords :: "string list" where
  "metadataKeywords = [''gender'', ''grade'', ''class'']"

definition hasKeyword :: "string list \<Rightarrow> string \<Rightarrow> bool" where
  "hasKeyword keywords col = list_ex (\<lambda>keyword. includes_str (toLowerCase col) keyword) keywords"

text \<open>\<open>(row[col] || "")\<close>\<close>

definition cell :: "row \<Rightarrow> string \<Rightarrow> string" where
  "cell r col = (case map_of r col of None \<Rightarrow> '''' | Some v \<Rightarrow> v)"

text \<open>
  \<open>response.split(/[,;\n]+/)\<close>: the pieces between the maximal runs of separators,
  then \<open>.map(t => t.trim()).filter(Boolean)\<close>.
\<close>

definition isSeparator :: "char \<Rightarrow> bool" where
  "isSeparator c = (c = CHR '','' \<or> c = CHR '';'' \<or> c = CHR 0x0A)"

function splitRuns :: "(char \<Rightarrow> bool) \<Rightarrow> string \<Rightarrow> string list" where
  "splitRuns sep s =
     (case dropWhile (\<lambda>c. \<not> sep c) s of
        [] \<Rightarrow> [s]
      | c # rest \<Rightarrow> takeWhile (\<lambda>c. \<not> sep c) s # splitRuns sep (dropWhile sep rest))"
  by pat_completeness auto
termination
proof (relation "measure (\<lambda>(sep, s). length s)")
  show "wf (measure (\<lambda>(sep, s). length s))" by simp
next
  fix sep :: "char \<Rightarrow> bool" and s :: string and c rest
  assume "dropWhile (\<lambda>c. \<not> sep c) s = c # rest"
  then have "length (c # rest) \<le> length s"
    by (metis length_dropWhile_le)
  moreover have "length (dropWhile sep rest) \<le> length rest"
    by (rule length_dropWhile_le)
  ultimately show "((sep, dropWhile sep rest), (sep, s)) \<in> measure (\<lambda>(sep, s). length s)"
    by simp
qed

declare splitRuns.simps [simp del]

definition splitTargets :: "string \<Rightarrow> string list" where
  "splitTargets response = filter (\<lambda>t. t \<noteq> '''') (map trim (splitRuns isSeparator response))"

definition getRelType :: "(string \<times> string) list \<Rightarrow> string \<Rightarrow> string" where
  "getRelType typeMap colName =
     (case find (\<lambda>(key, val). includes_str (toLowerCase colName) key) typeMap of
        Some (key, val) \<Rightarrow> val
      | None \<Rightarrow> ''general'')"

text \<open>The loops over the targets of a cell, the relationship columns of a row, and the rows.\<close>

definition addTarget ::
  "string \<Rightarrow> string \<Rightarrow> string list \<times> edge list \<Rightarrow> string \<Rightarrow> string list \<times> edge list" where
  "addTarget sourceName relType st targetName =
     (if targetName \<noteq> '''' \<and> targetName \<noteq> sourceName
      then (set_add (fst st) targetName,
            snd st @ [\<lparr>source = sourceName, target = targetName, type = relType, weight = 1\<rparr>])
      else st)"

definition csvColumn ::
  "(string \<times> string) list \<Rightarrow> row \<Rightarrow> string \<Rightarrow> string list \<times> edge list \<Rightarrow> string
     \<Rightarrow> string list \<times> edge list" where
  "csvColumn typeMap r sourceName st col =
     (let relType = getRelType typeMap col;
          response = trim (cell r col)
      in if response = '''' then st
         else foldl (addTarget sourceName relType) st (splitTargets response))"

definition csvRow ::
  "(string \<times> string) list \<Rightarrow> string \<Rightarrow> string list \<Rightarrow> string list \<times> edge list \<Rightarrow> row
     \<Rightarrow> string list \<times> edge list" where
  "csvRow typeMap respondentCol relationshipCols st r =
     (let sourceName = trim (cell r respondentCol)
      in if sourceName = '''' then st
         else foldl (csvColumn typeMap r sourceName) (set_add (fst st) sourceName, snd st)
                relationshipCols)"

text \<open>The key \<open>`${re.source}-${re.target}-${re.type}`\<close> of \<open>processCsvData\<close>.\<close>

definition csvKey :: "edge \<Rightarrow> string" where
  "csvKey e = source e @ ''-'' @ target e @ ''-'' @ type e"

definition processCsvData :: "(string \<times> string) list \<Rightarrow> row list \<Rightarrow> csv_error + parse_result" where
  "processCsvData typeMap data =
     (if data = [] then Inl EmptyFile
      else let columns = map (\<lambda>k. trim (fst k)) (hd data) in
        if length columns < 2 then Inl TooFewColumns
        else let respondentCol = (case find (hasKeyword respondentKeywords) columns of
                                    Some col \<Rightarrow> col
                                  | None \<Rightarrow> hd columns);
                 relationshipCols =
                   filter (\<lambda>col. col \<noteq> respondentCol \<and> \<not> hasKeyword excludeKeywords col \<and>
                                 \<not> hasKeyword metadataKeywords col) columns
          in if relationshipCols = [] then Inl NoRelationshipColumns
             else let st = foldl (csvRow typeMap respondentCol relationshipCols) ([], []) data
               in Inr \<lparr>nodes = map (\<lambda>n. newNode n n) (fst st),
                       edges = mergeEdges csvKey (snd st)\<rparr>)"

section \<open>Dashboard.tsx: the identity resolver\<close>



text \<open>
  \<open>n.toString(radix)\<close> on a non-negative integer, and the hash of
  \<open>buildStableStudentId\<close>: 32-bit XOR with each code unit, then \<open>Math.imul\<close>; the
  result is read unsigned (\<open>hash >>> 0\<close>) and written in base 36.
\<close>

definition digitChar :: "nat \<Rightarrow> char" where
  "digitChar d = ''0123456789abcdefghijklmnopqrstuvwxyz'' ! d"

fun toStringRadix :: "nat \<Rightarrow> nat \<Rightarrow> string" where
  "toStringRadix b n =
     (if n < b \<or> b < 2 then [digitChar n]
      else toStringRadix b (n div b) @ [digitChar (n mod b)])"

declare toStringRadix.simps [simp del]

definition fnv1a :: "string \<Rightarrow> 32 word" where
  "fnv1a s = foldl (\<lambda>h c. (h XOR of_nat (of_char c)) * 16777619) 2166136261 s"




















section \<open>analyzer.ts\<close>

subsection \<open>The seeded generator\<close>

text \<open>
  \<open>createSeededRng\<close> hashes the seed string with the same 32-bit loop as
  \<open>buildStableStudentId\<close> and replaces a zero seed by 1. The closure it returns is
  determined by its state: \<open>rngNext\<close> is one call, giving the number returned and
  the next state.
\<close>

definition createSeededRng :: "string \<Rightarrow> 32 word" where
  "createSeededRng seedSource = (let seed = fnv1a seedSource in if seed = 0 then 1 else seed)"

definition rngNext :: "32 word \<Rightarrow> real \<times> 32 word" where
  "rngNext seed =
     (let s1 = seed XOR push_bit 13 seed;
          s2 = s1 XOR drop_bit 17 s1;
          s3 = s2 XOR push_bit 5 s2
      in (real (unat s3) / 4294967296, s3))"

subsection \<open>The graph of the graph library\<close>

text \<open>
  A graph of type directed and multi: the nodes with their attributes in insertion
  order, and the directed edges in insertion order, parallel edges kept apart. The
  attributes of a node are the fields of the node record it was added with
  (\<open>{ ...n }\<close>) and the values the metrics assign under their own keys.
  \<open>addNode\<close> throws on a present key, \<open>addDirectedEdge\<close> on an absent endpoint.
\<close>

datatype attr_key =
  inDegreeCentrality | outDegreeCentrality | betweennessCentrality
  | closenessCentrality | eigenvectorCentrality

record node_attributes =
  base :: node
  centrality :: "attr_key \<Rightarrow> jsnum option"

record graph =
  g_nodes :: "(string \<times> node_attributes) list"
  g_edges :: "edge list"

datatype graph_error = UsageGraphError | NotFoundGraphError

definition emptyGraph :: graph where
  "emptyGraph = \<lparr>g_nodes = [], g_edges = []\<rparr>"

definition hasNode :: "graph \<Rightarrow> string \<Rightarrow> bool" where
  "hasNode g i = (map_of (g_nodes g) i \<noteq> None)"

definition addNode :: "graph \<Rightarrow> string \<Rightarrow> node_attributes \<Rightarrow> graph_error + graph" where
  "addNode g i a =
     (if hasNode g i then Inl UsageGraphError else Inr (g\<lparr>g_nodes := g_nodes g @ [(i, a)]\<rparr>))"

definition addDirectedEdge :: "graph \<Rightarrow> string \<Rightarrow> string \<Rightarrow> edge \<Rightarrow> graph_error + graph" where
  "addDirectedEdge g s t e =
     (if \<not> hasNode g s \<or> \<not> hasNode g t then Inl NotFoundGraphError
      else Inr (g\<lparr>g_edges := g_edges g @ [e\<lparr>source := s, target := t\<rparr>]\<rparr>))"

definition graph_copy :: "graph \<Rightarrow> graph" where
  "graph_copy g = g"

text \<open>\<open>forEach\<close> with a callback that may throw: the first error ends the loop.\<close>

fun forEach :: "('a \<Rightarrow> 's \<Rightarrow> graph_error + 's) \<Rightarrow> 'a list \<Rightarrow> 's \<Rightarrow> graph_error + 's" where
  "forEach f [] s = Inr s"
| "forEach f (x # xs) s = (case f x s of Inl err \<Rightarrow> Inl err | Inr s' \<Rightarrow> forEach f xs s')"

subsection \<open>The metric libraries\<close>

text \<open>
  The centrality and community functions are imported libraries and are parameters of
  the model. \<open>centralityOf lib k g\<close> is the mapping that the function for the key
  \<open>k\<close> computes on \<open>g\<close>, or \<open>None\<close> when it throws; its \<open>assign\<close> writes
  the mapping under \<open>k\<close> once it is complete, so a call that throws writes
  nothing. The options of the eigenvector call (1000 iterations, tolerance
  \<open>1e-6\<close>) and of the community call (weights from the attribute \<open>weight\<close>,
  random walk) are constants of the call sites. \<open>louvain lib g seed\<close>
  is the community number of each node, for a graph and the state of the generator it
  is given, or \<open>None\<close> when it throws.
\<close>

record library =
  centralityOf :: "attr_key \<Rightarrow> graph \<Rightarrow> (string \<rightharpoonup> jsnum) option"
  louvain :: "graph \<Rightarrow> 32 word \<Rightarrow> (string \<rightharpoonup> nat) option"

definition setAttr :: "attr_key \<Rightarrow> jsnum option \<Rightarrow> node_attributes \<Rightarrow> node_attributes" where
  "setAttr k x a =
     (case x of None \<Rightarrow> a | Some v \<Rightarrow> a\<lparr>centrality := (centrality a)(k := Some v)\<rparr>)"

definition assignCentrality :: "attr_key \<Rightarrow> (string \<rightharpoonup> jsnum) \<Rightarrow> graph \<Rightarrow> graph" where
  "assignCentrality k m g = g\<lparr>g_nodes := map (\<lambda>(i, a). (i, setAttr k (m i) a)) (g_nodes g)\<rparr>"

text \<open>\<open>try { f.assign(graph) } catch (e) { console.warn(...) }\<close>\<close>

definition tryAssign :: "library \<Rightarrow> attr_key \<Rightarrow> graph \<Rightarrow> graph" where
  "tryAssign lib k g =
     (case centralityOf lib k g of None \<Rightarrow> g | Some m \<Rightarrow> assignCentrality k m g)"

text \<open>The first \<open>try\<close> block holds both degree calls: the second runs after the first returned.\<close>

definition degreeStage :: "library \<Rightarrow> graph \<Rightarrow> graph" where
  "degreeStage lib g =
     (case centralityOf lib inDegreeCentrality g of
        None \<Rightarrow> g
      | Some m \<Rightarrow> tryAssign lib outDegreeCentrality (assignCentrality inDegreeCentrality m g))"

definition centralityStages :: "library \<Rightarrow> graph \<Rightarrow> graph" where
  "centralityStages lib g =
     tryAssign lib eigenvectorCentrality
       (tryAssign lib closenessCentrality
         (tryAssign lib betweennessCentrality (degreeStage lib g)))"

subsection \<open>The community stage\<close>

text \<open>
  \<open>Array.prototype.sort\<close> without a comparator orders strings by their code units;
  \<open>numberToString\<close> is the language's conversion of a weight inside a template
  literal, a parameter of the model.
\<close>

fun join :: "string \<Rightarrow> string list \<Rightarrow> string" where
  "join sep [] = []"
| "join sep [x] = x"
| "join sep (x # y # ys) = x @ sep @ join sep (y # ys)"

definition edgeSeed :: "(real \<Rightarrow> string) \<Rightarrow> edge \<Rightarrow> string" where
  "edgeSeed numberToString e =
     source e @ ''>'' @ target e @ '':'' @ type e @ '':'' @ numberToString (weight e)"

definition seedSource :: "(real \<Rightarrow> string) \<Rightarrow> node list \<Rightarrow> edge list \<Rightarrow> string" where
  "seedSource numberToString ns es =
     join ''|'' (sort (map node_id ns)) @ ''::'' @
     join ''|'' (sort (map (edgeSeed numberToString) es))"

text \<open>\<open>c || 1\<close> on a community number, \<open>x || 0\<close> on a metric.\<close>

definition orOne :: "int option \<Rightarrow> int" where
  "orOne c = (case c of None \<Rightarrow> 1 | Some v \<Rightarrow> if v = 0 then 1 else v)"

fun orZero :: "jsnum option \<Rightarrow> jsnum" where
  "orZero None = Fin 0"
| "orZero (Some NaN) = Fin 0"
| "orZero (Some (Fin r)) = Fin r"
| "orZero (Some PosInf) = PosInf"
| "orZero (Some NegInf) = NegInf"

definition setCommunity :: "int \<Rightarrow> node_attributes \<Rightarrow> node_attributes" where
  "setCommunity c a = a\<lparr>base := (base a)\<lparr>community := Some c\<rparr>\<rparr>"

definition setCommunities :: "(string \<rightharpoonup> nat) \<Rightarrow> graph \<Rightarrow> graph" where
  "setCommunities communities g =
     g\<lparr>g_nodes := map (\<lambda>(i, a). (i, setCommunity (orOne (map_option int (communities i))) a))
                      (g_nodes g)\<rparr>"

definition communityStage ::
  "library \<Rightarrow> (real \<Rightarrow> string) \<Rightarrow> node list \<Rightarrow> edge list \<Rightarrow> graph \<Rightarrow> graph" where
  "communityStage lib numberToString ns es g =
     (let rng = createSeededRng (seedSource numberToString ns es) in
      case louvain lib (graph_copy g) rng of
        None \<Rightarrow> g
      | Some communities \<Rightarrow> setCommunities communities g)"

subsection \<open>analyzeNetwork\<close>

definition spread :: "node \<Rightarrow> node_attributes" where
  "spread n = \<lparr>base = n, centrality = (\<lambda>k. None)\<rparr>"

definition buildGraph :: "node list \<Rightarrow> edge list \<Rightarrow> graph_error + graph" where
  "buildGraph ns es =
     (case forEach (\<lambda>n g. if \<not> hasNode g (node_id n) then addNode g (node_id n) (spread n)
                           else Inr g) ns emptyGraph of
        Inl err \<Rightarrow> Inl err
      | Inr g \<Rightarrow>
          forEach (\<lambda>e g. if hasNode g (source e) \<and> hasNode g (target e)
                          then addDirectedEdge g (source e) (target e) e else Inr g) es g)"

definition enrich :: "string \<times> node_attributes \<Rightarrow> node" where
  "enrich p =
     (case p of (i, attr) \<Rightarrow>
        \<lparr>node_id = i, name = name (base attr), label = label (base attr),
         group = group (base attr),
         inDegree = Some (orZero (centrality attr inDegreeCentrality)),
         outDegree = Some (orZero (centrality attr outDegreeCentrality)),
         betweenness = Some (orZero (centrality attr betweennessCentrality)),
         closeness = Some (orZero (centrality attr closenessCentrality)),
         eigenvector = Some (orZero (centrality attr eigenvectorCentrality)),
         community = Some (orOne (community (base attr)))\<rparr>)"

record analysis = parse_result +
  graph :: graph
  isolatedStudents :: "node list"

definition analyzeNetwork ::
  "library \<Rightarrow> (real \<Rightarrow> string) \<Rightarrow> node list \<Rightarrow> edge list \<Rightarrow> graph_error + analysis" where
  "analyzeNetwork lib numberToString ns es =
     (case buildGraph ns es of
        Inl err \<Rightarrow> Inl err
      | Inr g0 \<Rightarrow>
          (let g = communityStage lib numberToString ns es (centralityStages lib g0);
               enrichedNodes = map enrich (g_nodes g)
           in Inr \<lparr>nodes = enrichedNodes, edges = es, graph = g,
                   isolatedStudents = filter (\<lambda>n. orZero (inDegree n) = Fin 0) enrichedNodes\<rparr>))"

section \<open>The result of analyzeNetwork in closed form\<close>

subsection \<open>The graph that analyzeNetwork builds\<close>

text \<open>
  The nodes of the input that are added: each one whose id has not been seen, in input
  order. \<open>computed lib k g i\<close> is what the library function for \<open>k\<close> gives the
  node \<open>i\<close> on \<open>g\<close>: nothing when it throws or leaves the node out.
\<close>

fun firstOccurrences :: "string list \<Rightarrow> node list \<Rightarrow> node list" where
  "firstOccurrences seen [] = []"
| "firstOccurrences seen (n # ns) =
     (if node_id n \<in> set seen then firstOccurrences seen ns
      else n # firstOccurrences (seen @ [node_id n]) ns)"

definition computed :: "library \<Rightarrow> attr_key \<Rightarrow> graph \<Rightarrow> string \<Rightarrow> jsnum option" where
  "computed lib k g i = (case centralityOf lib k g of None \<Rightarrow> None | Some m \<Rightarrow> m i)"

definition knownEndpoints :: "node list \<Rightarrow> edge \<Rightarrow> bool" where
  "knownEndpoints ns e \<longleftrightarrow> source e \<in> node_id ` set ns \<and> target e \<in> node_id ` set ns"

subsection \<open>What analyzeNetwork returns\<close>

text \<open>
  The graph after the two loops, the result of the second degree call (made only when
  the first returned), the community mapping the library returns for the graph and
  generator state it is given, and the record that the export makes of an input node.
\<close>

definition builtGraph :: "node list \<Rightarrow> edge list \<Rightarrow> graph" where
  "builtGraph ns es =
     \<lparr>g_nodes = map (\<lambda>n. (node_id n, spread n)) (firstOccurrences [] ns),
      g_edges = filter (knownEndpoints ns) es\<rparr>"

definition outComputed :: "library \<Rightarrow> graph \<Rightarrow> string \<Rightarrow> jsnum option" where
  "outComputed lib g i =
     (case centralityOf lib inDegreeCentrality g of
        None \<Rightarrow> None
      | Some m \<Rightarrow> computed lib outDegreeCentrality (assignCentrality inDegreeCentrality m g) i)"

definition communitiesOf ::
  "library \<Rightarrow> (real \<Rightarrow> string) \<Rightarrow> node list \<Rightarrow> edge list \<Rightarrow> (string \<rightharpoonup> nat) option" where
  "communitiesOf lib numberToString ns es =
     louvain lib (graph_copy (centralityStages lib (builtGraph ns es)))
       (createSeededRng (seedSource numberToString ns es))"

definition finalNode :: "library \<Rightarrow> (string \<rightharpoonup> nat) option \<Rightarrow> graph \<Rightarrow> node \<Rightarrow> node" where
  "finalNode lib communities g0 n =
     \<lparr>node_id = node_id n, name = name n, label = label n, group = group n,
      inDegree = Some (orZero (computed lib inDegreeCentrality g0 (node_id n))),
      outDegree = Some (orZero (outComputed lib g0 (node_id n))),
      betweenness = Some (orZero (computed lib betweennessCentrality (degreeStage lib g0)
                                    (node_id n))),
      closeness = Some (orZero (computed lib closenessCentrality
                                  (tryAssign lib betweennessCentrality (degreeStage lib g0))
                                  (node_id n))),
      eigenvector = Some (orZero (computed lib eigenvectorCentrality
                                    (tryAssign lib closenessCentrality
                                      (tryAssign lib betweennessCentrality (degreeStage lib g0)))
                                    (node_id n))),
      community = Some (case communities of
                          None \<Rightarrow> orOne (community n)
                        | Some c \<Rightarrow> orOne (map_option int (c (node_id n))))\<rparr>"

text \<open>The attributes of a node after the four metric blocks.\<close>

definition metricAttrs :: "library \<Rightarrow> graph \<Rightarrow> string \<Rightarrow> node_attributes \<Rightarrow> node_attributes" where
  "metricAttrs lib g0 i a =
     setAttr eigenvectorCentrality
       (computed lib eigenvectorCentrality
          (tryAssign lib closenessCentrality
            (tryAssign lib betweennessCentrality (degreeStage lib g0))) i)
       (setAttr closenessCentrality
          (computed lib closenessCentrality
             (tryAssign lib betweennessCentrality (degreeStage lib g0)) i)
          (setAttr betweennessCentrality
             (computed lib betweennessCentrality (degreeStage lib g0) i)
             (setAttr outDegreeCentrality (outComputed lib g0 i)
                (setAttr inDegreeCentrality (computed lib inDegreeCentrality g0 i) a))))"

section \<open>Stand-ins for the libraries in concrete runs\<close>

text \<open>
  The theorems below hold for every library. The runs on concrete inputs need one:
  degree centrality as the metrics library documents it (the number of edges into, or
  out of, the node over the number of nodes less one, with the language's division by
  zero), and a community function that gives every node its own community, numbered from
  0 in node order. \<open>wholeToString\<close> writes a whole, non-negative weight as the
  language does.
\<close>

definition jsDivide :: "nat \<Rightarrow> nat \<Rightarrow> jsnum" where
  "jsDivide a b = (if b = 0 then (if a = 0 then NaN else PosInf) else Fin (real a / real b))"

definition degreeCentrality :: "(edge \<Rightarrow> string) \<Rightarrow> graph \<Rightarrow> (string \<rightharpoonup> jsnum)" where
  "degreeCentrality endpoint g =
     (\<lambda>i. if hasNode g i
          then Some (jsDivide (length (filter (\<lambda>e. endpoint e = i) (g_edges g)))
                              (length (g_nodes g) - 1))
          else None)"

definition labelByOrder :: "graph \<Rightarrow> 32 word \<Rightarrow> (string \<rightharpoonup> nat) option" where
  "labelByOrder g seed = Some (map_of (zip (map fst (g_nodes g)) [0..<length (g_nodes g)]))"

definition degreeOnly :: "attr_key \<Rightarrow> graph \<Rightarrow> (string \<rightharpoonup> jsnum) option" where
  "degreeOnly k g =
     (if k = inDegreeCentrality then Some (degreeCentrality target g)
      else if k = outDegreeCentrality then Some (degreeCentrality source g)
      else None)"

definition sampleLibrary :: library where
  "sampleLibrary = \<lparr>centralityOf = degreeOnly, louvain = labelByOrder\<rparr>"

text \<open>A library whose in-degree function throws and whose other functions give every node 1.\<close>

definition failingInDegree :: library where
  "failingInDegree =
     \<lparr>centralityOf = (\<lambda>k g. if k = inDegreeCentrality then None else Some (\<lambda>i. Some (Fin 1))),
      louvain = (\<lambda>g seed. None)\<rparr>"

definition wholeToString :: "real \<Rightarrow> string" where
  "wholeToString w = toStringRadix 10 (nat \<lfloor>w\<rfloor>)"

section \<open>Predicates on numbers\<close>

text \<open>
  \<open>x >= 0\<close> on the metric of an exported node, and the values a degree function
  may return without the exported metric turning negative: a NaN is exported as 0.
\<close>

fun geZero :: "jsnum option \<Rightarrow> bool" where
  "geZero (Some (Fin r)) = (0 \<le> r)"
| "geZero (Some PosInf) = True"
| "geZero (Some NegInf) = False"
| "geZero (Some NaN) = False"
| "geZero None = False"

fun notNegative :: "jsnum \<Rightarrow> bool" where
  "notNegative (Fin r) = (0 \<le> r)"
| "notNegative PosInf = True"
| "notNegative NaN = True"
| "notNegative NegInf = False"

section \<open>The undirected projection of the specification\<close>

text \<open>
  The projection as the specification words it, for comparison with the graph that the
  community call receives: one entry for each pair of nodes joined by an edge, in
  either direction and of any type, with the sum of the weights of all those edges.
\<close>

definition pairKey :: "edge \<Rightarrow> string \<times> string" where
  "pairKey e = (min (source e) (target e), max (source e) (target e))"

definition undirectedProjection :: "edge list \<Rightarrow> ((string \<times> string) \<times> real) list" where
  "undirectedProjection es =
     foldl (\<lambda>acc e. case map_of acc (pairKey e) of
                       None \<Rightarrow> acc @ [(pairKey e, weight e)]
                     | Some w \<Rightarrow> AList.update (pairKey e) (w + weight e) acc) [] es"

section \<open>The triple of an edge\<close>

definition triple :: "edge \<Rightarrow> string \<times> string \<times> string" where
  "triple e = (source e, target e, type e)"

text \<open>A stand-in for the UUID generator in concrete runs: a different string for each call.\<close>

definition sampleUUID :: "nat \<Rightarrow> string" where
  "sampleUUID k = ''uuid-'' @ replicate k (CHR ''0'')"

section \<open>The normalizer in the words of the specification\<close>





section \<open>The invariant of the resolution loop\<close>


section \<open>Lemmas on the graph that analyzeNetwork builds\<close>

lemma hasNode_iff: "hasNode g i \<longleftrightarrow> i \<in> fst ` set (g_nodes g)"
  by (simp add: hasNode_def map_of_eq_None_iff)

lemma forEach_addNode:
  "forEach (\<lambda>n g. if \<not> hasNode g (node_id n) then addNode g (node_id n) (spread n) else Inr g)
     ns g
   = Inr (g\<lparr>g_nodes := g_nodes g @
            map (\<lambda>n. (node_id n, spread n)) (firstOccurrences (map fst (g_nodes g)) ns)\<rparr>)"
proof (induction ns arbitrary: g)
  case Nil
  show ?case by simp
next
  case (Cons n ns)
  show ?case
  proof (cases "hasNode g (node_id n)")
    case True
    then have "node_id n \<in> set (map fst (g_nodes g))" by (simp add: hasNode_iff)
    with True show ?thesis by (simp add: Cons.IH)
  next
    case False
    then have "node_id n \<notin> set (map fst (g_nodes g))" by (simp add: hasNode_iff)
    with False show ?thesis by (simp add: Cons.IH addNode_def)
  qed
qed

lemma forEach_addDirectedEdge:
  "forEach (\<lambda>e g. if hasNode g (source e) \<and> hasNode g (target e)
                   then addDirectedEdge g (source e) (target e) e else Inr g) es g
   = Inr (g\<lparr>g_edges := g_edges g @
            filter (\<lambda>e. hasNode g (source e) \<and> hasNode g (target e)) es\<rparr>)"
proof (induction es arbitrary: g)
  case Nil
  show ?case by simp
next
  case (Cons e es)
  have same: "hasNode (g\<lparr>g_edges := x\<rparr>) = hasNode g" for x
    by (simp add: hasNode_def fun_eq_iff)
  show ?case
    by (simp add: Cons.IH addDirectedEdge_def same)
qed

lemma firstOccurrences_ids:
  "set (map node_id (firstOccurrences seen ns)) = node_id ` set ns - set seen"
proof (induction ns arbitrary: seen)
  case Nil
  show ?case by simp
next
  case (Cons n ns)
  show ?case
  proof (cases "node_id n \<in> set seen")
    case True
    then have "node_id ` set (n # ns) - set seen = node_id ` set ns - set seen" by auto
    with True Cons.IH [of seen] show ?thesis by simp
  next
    case False
    then have "node_id ` set (n # ns) - set seen
               = insert (node_id n) (node_id ` set ns - set (seen @ [node_id n]))"
      by auto
    with False Cons.IH [of "seen @ [node_id n]"] show ?thesis by simp
  qed
qed

lemma firstOccurrences_mem:
  "n \<in> set (firstOccurrences seen ns) \<Longrightarrow> n \<in> set ns \<and> node_id n \<notin> set seen"
proof (induction ns arbitrary: seen)
  case Nil
  then show ?case by simp
next
  case (Cons m ns)
  show ?case
  proof (cases "node_id m \<in> set seen")
    case True
    with Cons.prems have "n \<in> set (firstOccurrences seen ns)" by simp
    from Cons.IH [OF this] show ?thesis by simp
  next
    case False
    with Cons.prems have "n = m \<or> n \<in> set (firstOccurrences (seen @ [node_id m]) ns)"
      by simp
    then show ?thesis
    proof
      assume "n = m"
      with False show ?thesis by simp
    next
      assume "n \<in> set (firstOccurrences (seen @ [node_id m]) ns)"
      from Cons.IH [OF this] show ?thesis by simp
    qed
  qed
qed

lemma firstOccurrences_distinct:
  "distinct (map node_id (firstOccurrences seen ns))"
proof (induction ns arbitrary: seen)
  case Nil
  show ?case by simp
next
  case (Cons n ns)
  have "node_id n \<notin> node_id ` set (firstOccurrences (seen @ [node_id n]) ns)"
  proof
    assume "node_id n \<in> node_id ` set (firstOccurrences (seen @ [node_id n]) ns)"
    then obtain m where "m \<in> set (firstOccurrences (seen @ [node_id n]) ns)"
      and "node_id m = node_id n" by auto
    with firstOccurrences_mem [of m "seen @ [node_id n]" ns] show False by simp
  qed
  with Cons.IH show ?case by simp
qed

lemma firstOccurrences_find:
  "n \<in> set (firstOccurrences seen ns) \<Longrightarrow> find (\<lambda>m. node_id m = node_id n) ns = Some n"
proof (induction ns arbitrary: seen)
  case Nil
  then show ?case by simp
next
  case (Cons m ns)
  show ?case
  proof (cases "node_id m \<in> set seen")
    case True
    with Cons.prems have mem: "n \<in> set (firstOccurrences seen ns)" by simp
    from firstOccurrences_mem [OF mem] True have "node_id m \<noteq> node_id n" by auto
    with Cons.IH [OF mem] show ?thesis by simp
  next
    case False
    show ?thesis
    proof (cases "n = m")
      case True
      then show ?thesis by simp
    next
      case nm: False
      with False Cons.prems have mem: "n \<in> set (firstOccurrences (seen @ [node_id m]) ns)"
        by simp
      from firstOccurrences_mem [OF mem] have "node_id m \<noteq> node_id n" by auto
      with Cons.IH [OF mem] show ?thesis by simp
    qed
  qed
qed


lemma buildGraph_eq: "buildGraph ns es = Inr (builtGraph ns es)"
proof -
  have ids: "fst ` set (map (\<lambda>n. (node_id n, spread n)) (firstOccurrences [] ns))
             = node_id ` set ns"
    using firstOccurrences_ids [of "[]" ns] by (simp add: image_image)
  have known: "(\<lambda>e. hasNode \<lparr>g_nodes = map (\<lambda>n. (node_id n, spread n)) (firstOccurrences [] ns),
                               g_edges = []\<rparr> (source e) \<and>
                     hasNode \<lparr>g_nodes = map (\<lambda>n. (node_id n, spread n)) (firstOccurrences [] ns),
                               g_edges = []\<rparr> (target e))
               = knownEndpoints ns"
    using ids by (simp add: fun_eq_iff hasNode_iff knownEndpoints_def)
  show ?thesis
    unfolding buildGraph_def forEach_addNode
    by (simp add: emptyGraph_def forEach_addDirectedEdge known builtGraph_def)
qed

lemma setAttr_base: "base (setAttr k x a) = base a"
  by (simp add: setAttr_def split: option.splits)

lemma setAttr_centrality:
  "centrality (setAttr k x a) k' = (if k' = k \<and> x \<noteq> None then x else centrality a k')"
  by (auto simp: setAttr_def split: option.splits)

lemma setAttr_None: "setAttr k None a = a"
  by (simp add: setAttr_def)

lemma g_nodes_assignCentrality:
  "g_nodes (assignCentrality k m g) = map (\<lambda>p. (fst p, setAttr k (m (fst p)) (snd p))) (g_nodes g)"
  by (simp add: assignCentrality_def case_prod_unfold)

lemma g_edges_assignCentrality: "g_edges (assignCentrality k m g) = g_edges g"
  by (simp add: assignCentrality_def)

lemma assignCentrality_none: "assignCentrality k (\<lambda>i. None) g = g"
  by (simp add: assignCentrality_def setAttr_None)

lemma tryAssign_eq: "tryAssign lib k g = assignCentrality k (computed lib k g) g"
proof (cases "centralityOf lib k g")
  case None
  then have "computed lib k g = (\<lambda>i. None)" by (simp add: computed_def fun_eq_iff)
  with None show ?thesis by (simp add: tryAssign_def assignCentrality_none)
next
  case (Some m)
  then have "computed lib k g = m" by (simp add: computed_def fun_eq_iff)
  with Some show ?thesis by (simp add: tryAssign_def)
qed

lemma degreeStage_eq:
  "degreeStage lib g =
     assignCentrality outDegreeCentrality (outComputed lib g)
       (assignCentrality inDegreeCentrality (computed lib inDegreeCentrality g) g)"
proof (cases "centralityOf lib inDegreeCentrality g")
  case None
  then have "computed lib inDegreeCentrality g = (\<lambda>i. None)" "outComputed lib g = (\<lambda>i. None)"
    by (simp_all add: computed_def outComputed_def fun_eq_iff)
  with None show ?thesis by (simp add: degreeStage_def assignCentrality_none)
next
  case (Some m)
  then have "computed lib inDegreeCentrality g = m"
    "outComputed lib g = computed lib outDegreeCentrality (assignCentrality inDegreeCentrality m g)"
    by (simp_all add: computed_def outComputed_def fun_eq_iff)
  with Some show ?thesis by (simp add: degreeStage_def tryAssign_eq)
qed

lemma g_edges_centralityStages: "g_edges (centralityStages lib g) = g_edges g"
  by (simp add: centralityStages_def tryAssign_eq degreeStage_eq g_edges_assignCentrality)

lemma g_edges_communityStage:
  "g_edges (communityStage lib numberToString ns es g) = g_edges g"
  by (simp add: communityStage_def setCommunities_def Let_def split: option.splits)

lemma orOne_idem: "orOne (Some (orOne x)) = orOne x"
  by (simp add: orOne_def split: option.splits)

lemma orZero_idem: "orZero (Some (orZero x)) = orZero x"
  by (cases x rule: orZero.cases) simp_all

lemma orZero_guard: "orZero (if x \<noteq> None then x else None) = orZero x"
  by simp

lemma g_nodes_centralityStages:
  "g_nodes (centralityStages lib g0) =
     map (\<lambda>p. (fst p, metricAttrs lib g0 (fst p) (snd p))) (g_nodes g0)"
proof -
  define g1 where "g1 = degreeStage lib g0"
  define g2 where "g2 = tryAssign lib betweennessCentrality g1"
  define g3 where "g3 = tryAssign lib closenessCentrality g2"
  have n1: "g_nodes g1 =
      map (\<lambda>p. (fst p, setAttr outDegreeCentrality (outComputed lib g0 (fst p))
                   (setAttr inDegreeCentrality (computed lib inDegreeCentrality g0 (fst p))
                      (snd p)))) (g_nodes g0)"
    by (simp add: g1_def degreeStage_eq g_nodes_assignCentrality comp_def)
  have n2: "g_nodes g2 =
      map (\<lambda>p. (fst p, setAttr betweennessCentrality
                   (computed lib betweennessCentrality g1 (fst p)) (snd p))) (g_nodes g1)"
    by (simp add: g2_def tryAssign_eq g_nodes_assignCentrality)
  have n3: "g_nodes g3 =
      map (\<lambda>p. (fst p, setAttr closenessCentrality
                   (computed lib closenessCentrality g2 (fst p)) (snd p))) (g_nodes g2)"
    by (simp add: g3_def tryAssign_eq g_nodes_assignCentrality)
  have n4: "g_nodes (tryAssign lib eigenvectorCentrality g3) =
      map (\<lambda>p. (fst p, setAttr eigenvectorCentrality
                   (computed lib eigenvectorCentrality g3 (fst p)) (snd p))) (g_nodes g3)"
    by (simp add: tryAssign_eq g_nodes_assignCentrality)
  have "g_nodes (centralityStages lib g0) = g_nodes (tryAssign lib eigenvectorCentrality g3)"
    by (simp add: centralityStages_def g3_def g2_def g1_def)
  also have "\<dots> = map (\<lambda>p. (fst p, metricAttrs lib g0 (fst p) (snd p))) (g_nodes g0)"
    unfolding n4 n3 n2 n1
    by (simp add: comp_def metricAttrs_def g3_def g2_def g1_def)
  finally show ?thesis .
qed

lemma keys_centralityStages: "map fst (g_nodes (centralityStages lib g)) = map fst (g_nodes g)"
  by (simp add: g_nodes_centralityStages comp_def)

lemma length_centralityStages: "length (g_nodes (centralityStages lib g)) = length (g_nodes g)"
  by (simp add: g_nodes_centralityStages)

lemma enrich_metricAttrs:
  "enrich (node_id n, metricAttrs lib g0 (node_id n) (spread n)) = finalNode lib None g0 n"
  by (simp add: enrich_def finalNode_def metricAttrs_def setAttr_centrality setAttr_base
      spread_def)

lemma enrich_setCommunity:
  "enrich (node_id n, setCommunity (orOne x) (metricAttrs lib g0 (node_id n) (spread n)))
   = (finalNode lib None g0 n)\<lparr>community := Some (orOne x)\<rparr>"
  by (simp add: enrich_def finalNode_def metricAttrs_def setAttr_centrality setAttr_base
      spread_def setCommunity_def orOne_idem)

lemma analyzeNetwork_eq:
  "analyzeNetwork lib numberToString ns es =
     Inr \<lparr>nodes = map (finalNode lib (communitiesOf lib numberToString ns es) (builtGraph ns es))
                    (firstOccurrences [] ns),
          edges = es,
          graph = communityStage lib numberToString ns es
                    (centralityStages lib (builtGraph ns es)),
          isolatedStudents =
            filter (\<lambda>n. inDegree n = Some (Fin 0))
              (map (finalNode lib (communitiesOf lib numberToString ns es) (builtGraph ns es))
                 (firstOccurrences [] ns))\<rparr>"
proof -
  let ?built = "builtGraph ns es"
  let ?c = "communitiesOf lib numberToString ns es"
  let ?g = "communityStage lib numberToString ns es (centralityStages lib ?built)"
  have g0: "g_nodes ?built = map (\<lambda>n. (node_id n, spread n)) (firstOccurrences [] ns)"
    by (simp add: builtGraph_def)
  have en: "map enrich (g_nodes ?g) = map (finalNode lib ?c ?built) (firstOccurrences [] ns)"
  proof (cases ?c)
    case None
    then have "?g = centralityStages lib ?built"
      by (simp add: communityStage_def communitiesOf_def Let_def)
    with None show ?thesis
      by (simp add: g_nodes_centralityStages g0 comp_def enrich_metricAttrs)
  next
    case (Some c)
    then have "?g = setCommunities c (centralityStages lib ?built)"
      by (simp add: communityStage_def communitiesOf_def Let_def)
    moreover have "(finalNode lib None ?built n)\<lparr>community := Some (orOne (map_option int (c (node_id n))))\<rparr>
        = finalNode lib (Some c) ?built n" for n
      by (simp add: finalNode_def)
    ultimately show ?thesis
      using Some
      by (simp add: setCommunities_def case_prod_unfold g_nodes_centralityStages g0 comp_def
          enrich_setCommunity)
  qed
  have iso: "filter (\<lambda>n. orZero (inDegree n) = Fin 0) (map (finalNode lib ?c ?built) xs)
           = filter (\<lambda>n. inDegree n = Some (Fin 0)) (map (finalNode lib ?c ?built) xs)" for xs
    by (rule filter_cong) (auto simp: finalNode_def orZero_idem)
  show ?thesis
    by (simp add: analyzeNetwork_def buildGraph_eq Let_def en iso)
qed

section \<open>Ids across two resolution calls\<close>



















section \<open>The community stage on reordered input\<close>

lemma sort_mset_eq:
  fixes xs ys :: "'a::linorder list"
  assumes "mset xs = mset ys"
  shows "sort xs = sort ys"
  by (rule properties_for_sort) (simp_all add: assms)

lemma seedSource_mset:
  assumes "mset (map node_id ns') = mset (map node_id ns)" and "mset es' = mset es"
  shows "seedSource numberToString ns' es' = seedSource numberToString ns es"
proof -
  from assms(2) have "mset (map (edgeSeed numberToString) es')
      = mset (map (edgeSeed numberToString) es)"
    by (metis mset_map)
  then have "sort (map (edgeSeed numberToString) es') = sort (map (edgeSeed numberToString) es)"
    by (rule sort_mset_eq)
  moreover from assms(1) have "sort (map node_id ns') = sort (map node_id ns)"
    by (rule sort_mset_eq)
  ultimately show ?thesis by (simp add: seedSource_def)
qed

text \<open>Whatever the order of the nodes and of the edges, the generator gets the same state.\<close>

lemma createSeededRng_order_independent:
  assumes "mset (map node_id ns') = mset (map node_id ns)" and "mset es' = mset es"
  shows "createSeededRng (seedSource numberToString ns' es')
         = createSeededRng (seedSource numberToString ns es)"
  using seedSource_mset [OF assms] by simp

text \<open>
  C2. The nodes a, b, c without edges are analysed in this order and in the order c,
  b, a, with a community library that numbers the communities in the order of the
  nodes of the graph it is given. The two runs seed the generator with the same value,
  since the seed comes from the sorted ids and edges; the graph is built in input
  order, and the labels follow it: the first run gives a, b, c the labels 1, 1, 2, the
  second gives a the label 2 and c the label 1.
\<close>

theorem community_stage_follows_input_order:
  "createSeededRng (seedSource wholeToString
      [newNode ''c'' ''Cy'', newNode ''b'' ''Bob'', newNode ''a'' ''Ann''] [])
   = createSeededRng (seedSource wholeToString
      [newNode ''a'' ''Ann'', newNode ''b'' ''Bob'', newNode ''c'' ''Cy''] []) \<and>
   map (\<lambda>n. (node_id n, community n))
     (nodes (projr (analyzeNetwork sampleLibrary wholeToString
        [newNode ''a'' ''Ann'', newNode ''b'' ''Bob'', newNode ''c'' ''Cy''] [])))
   = [(''a'', Some 1), (''b'', Some 1), (''c'', Some 2)] \<and>
   map (\<lambda>n. (node_id n, community n))
     (nodes (projr (analyzeNetwork sampleLibrary wholeToString
        [newNode ''c'' ''Cy'', newNode ''b'' ''Bob'', newNode ''a'' ''Ann''] [])))
   = [(''c'', Some 1), (''b'', Some 1), (''a'', Some 2)]"
proof -
  have "mset (map node_id [newNode ''c'' ''Cy'', newNode ''b'' ''Bob'', newNode ''a'' ''Ann''])
      = mset (map node_id [newNode ''a'' ''Ann'', newNode ''b'' ''Bob'', newNode ''c'' ''Cy''])"
    by (simp add: newNode_def add_mset_commute)
  then have seed: "createSeededRng (seedSource wholeToString
      [newNode ''c'' ''Cy'', newNode ''b'' ''Bob'', newNode ''a'' ''Ann''] [])
   = createSeededRng (seedSource wholeToString
      [newNode ''a'' ''Ann'', newNode ''b'' ''Bob'', newNode ''c'' ''Cy''] [])"
    by (rule createSeededRng_order_independent) simp
  have labels: "map (\<lambda>n. (node_id n, community n))
     (nodes (projr (analyzeNetwork sampleLibrary wholeToString
        [newNode ''a'' ''Ann'', newNode ''b'' ''Bob'', newNode ''c'' ''Cy''] [])))
   = [(''a'', Some 1), (''b'', Some 1), (''c'', Some 2)]"
    "map (\<lambda>n. (node_id n, community n))
     (nodes (projr (analyzeNetwork sampleLibrary wholeToString
        [newNode ''c'' ''Cy'', newNode ''b'' ''Bob'', newNode ''a'' ''Ann''] [])))
   = [(''c'', Some 1), (''b'', Some 1), (''a'', Some 2)]"
    by (simp_all add: analyzeNetwork_eq finalNode_def newNode_def orOne_def communitiesOf_def
      sampleLibrary_def labelByOrder_def graph_copy_def keys_centralityStages
      length_centralityStages builtGraph_def numeral_2_eq_2)
  from seed labels show ?thesis by simp
qed

section \<open>The graph given to the community library\<close>

text \<open>
  For every input, the community numbers of the result are those the library returns
  for a copy of the graph that was built: its edge list is the list of the input edges
  with known endpoints, one entry for each, in input order.
\<close>

lemma analyzeNetwork_louvain_input:
  "\<exists>r G. analyzeNetwork lib numberToString ns es = Inr r \<and>
     nodes r = map (finalNode lib (louvain lib G (createSeededRng (seedSource numberToString ns es)))
                      (builtGraph ns es)) (firstOccurrences [] ns) \<and>
     G = graph_copy (centralityStages lib (builtGraph ns es)) \<and>
     g_edges G = filter (knownEndpoints ns) es \<and>
     map fst (g_nodes G) = map node_id (firstOccurrences [] ns)"
  unfolding analyzeNetwork_eq
  by (simp add: communitiesOf_def graph_copy_def g_edges_centralityStages
      keys_centralityStages builtGraph_def comp_def)

text \<open>
  C3. For the nodes a and b with a friendship edge from a to b, one from b to a and a
  help edge from a to b, each of weight 1, the graph handed to the community library
  holds the three directed edges, each with its own weight. The undirected projection
  has one entry for the pair, with the weight 3; the edges handed over are not that
  projection.
\<close>

theorem analyzeNetwork_louvain_gets_directed_edges:
  "g_edges (graph_copy (centralityStages sampleLibrary
      (builtGraph [newNode ''a'' ''Ann'', newNode ''b'' ''Bob'']
         [\<lparr>source = ''a'', target = ''b'', type = ''friendship'', weight = 1\<rparr>,
          \<lparr>source = ''b'', target = ''a'', type = ''friendship'', weight = 1\<rparr>,
          \<lparr>source = ''a'', target = ''b'', type = ''help'', weight = 1\<rparr>])))
   = [\<lparr>source = ''a'', target = ''b'', type = ''friendship'', weight = 1\<rparr>,
      \<lparr>source = ''b'', target = ''a'', type = ''friendship'', weight = 1\<rparr>,
      \<lparr>source = ''a'', target = ''b'', type = ''help'', weight = 1\<rparr>] \<and>
   undirectedProjection
     [\<lparr>source = ''a'', target = ''b'', type = ''friendship'', weight = 1\<rparr>,
      \<lparr>source = ''b'', target = ''a'', type = ''friendship'', weight = 1\<rparr>,
      \<lparr>source = ''a'', target = ''b'', type = ''help'', weight = 1\<rparr>]
   = [((''a'', ''b''), 3)] \<and>
   map (\<lambda>e. (pairKey e, weight e))
     (g_edges (graph_copy (centralityStages sampleLibrary
        (builtGraph [newNode ''a'' ''Ann'', newNode ''b'' ''Bob'']
           [\<lparr>source = ''a'', target = ''b'', type = ''friendship'', weight = 1\<rparr>,
            \<lparr>source = ''b'', target = ''a'', type = ''friendship'', weight = 1\<rparr>,
            \<lparr>source = ''a'', target = ''b'', type = ''help'', weight = 1\<rparr>]))))
   \<noteq> undirectedProjection
       [\<lparr>source = ''a'', target = ''b'', type = ''friendship'', weight = 1\<rparr>,
        \<lparr>source = ''b'', target = ''a'', type = ''friendship'', weight = 1\<rparr>,
        \<lparr>source = ''a'', target = ''b'', type = ''help'', weight = 1\<rparr>]"
  by (simp add: graph_copy_def g_edges_centralityStages builtGraph_def knownEndpoints_def
      newNode_def undirectedProjection_def pairKey_def min_def max_def)

section \<open>The metric blocks\<close>

text \<open>
  C4. analyzeNetwork always returns. Every node of the result carries, for
  betweenness, closeness, eigenvector and in-degree, the value that the metric's own
  library call gave it on the graph the call received, with 0 for no value, whatever
  the other calls did; when that call throws, the metric is 0 on every node. The
  out-degree call shares the block of the in-degree call: it is made only after the
  in-degree call has returned, and when either of the two throws the out-degree is 0
  on every node.
\<close>

theorem analyzeNetwork_metric_blocks:
  "\<exists>r. analyzeNetwork lib numberToString ns es = Inr r \<and>
     (\<forall>n\<in>set (nodes r).
        inDegree n = Some (orZero (computed lib inDegreeCentrality (builtGraph ns es) (node_id n))) \<and>
        outDegree n = Some (orZero (outComputed lib (builtGraph ns es) (node_id n))) \<and>
        betweenness n =
          Some (orZero (computed lib betweennessCentrality
                          (degreeStage lib (builtGraph ns es)) (node_id n))) \<and>
        closeness n =
          Some (orZero (computed lib closenessCentrality
                          (tryAssign lib betweennessCentrality
                            (degreeStage lib (builtGraph ns es))) (node_id n))) \<and>
        eigenvector n =
          Some (orZero (computed lib eigenvectorCentrality
                          (tryAssign lib closenessCentrality
                            (tryAssign lib betweennessCentrality
                              (degreeStage lib (builtGraph ns es)))) (node_id n))) \<and>
        (centralityOf lib inDegreeCentrality (builtGraph ns es) = None \<longrightarrow>
           inDegree n = Some (Fin 0) \<and> outDegree n = Some (Fin 0)) \<and>
        (\<forall>m. centralityOf lib inDegreeCentrality (builtGraph ns es) = Some m \<longrightarrow>
           centralityOf lib outDegreeCentrality
             (assignCentrality inDegreeCentrality m (builtGraph ns es)) = None \<longrightarrow>
           outDegree n = Some (Fin 0) \<and> inDegree n = Some (orZero (m (node_id n)))) \<and>
        (centralityOf lib betweennessCentrality (degreeStage lib (builtGraph ns es)) = None \<longrightarrow>
           betweenness n = Some (Fin 0)) \<and>
        (centralityOf lib closenessCentrality
           (tryAssign lib betweennessCentrality (degreeStage lib (builtGraph ns es))) = None \<longrightarrow>
           closeness n = Some (Fin 0)) \<and>
        (centralityOf lib eigenvectorCentrality
           (tryAssign lib closenessCentrality
             (tryAssign lib betweennessCentrality (degreeStage lib (builtGraph ns es)))) = None \<longrightarrow>
           eigenvector n = Some (Fin 0)))"
proof -
  have fail: "centralityOf lib k g = None \<Longrightarrow> orZero (computed lib k g i) = Fin 0" for k g i
    by (simp add: computed_def)
  have fail_in: "centralityOf lib inDegreeCentrality g = None \<Longrightarrow>
      orZero (outComputed lib g i) = Fin 0" for g i
    by (simp add: outComputed_def)
  have fail_out: "centralityOf lib inDegreeCentrality g = Some m \<Longrightarrow>
      centralityOf lib outDegreeCentrality (assignCentrality inDegreeCentrality m g) = None \<Longrightarrow>
      orZero (outComputed lib g i) = Fin 0 \<and> computed lib inDegreeCentrality g i = m i" for g m i
    by (simp add: outComputed_def computed_def)
  show ?thesis
    unfolding analyzeNetwork_eq
    by (simp add: finalNode_def fail fail_in fail_out)
qed

theorem analyzeNetwork_metric_blocks_witness:
  "map (\<lambda>n. (node_id n, inDegree n, outDegree n, betweenness n, closeness n, eigenvector n))
     (nodes (projr (analyzeNetwork sampleLibrary wholeToString
        [newNode ''a'' ''Alice'', newNode ''b'' ''Bob'']
        [\<lparr>source = ''a'', target = ''b'', type = ''friendship'', weight = 1\<rparr>])))
   = [(''a'', Some (Fin 0), Some (Fin 1), Some (Fin 0), Some (Fin 0), Some (Fin 0)),
      (''b'', Some (Fin 1), Some (Fin 0), Some (Fin 0), Some (Fin 0), Some (Fin 0))]"
  using analyzeNetwork_metric_blocks [of sampleLibrary wholeToString
      "[newNode ''a'' ''Alice'', newNode ''b'' ''Bob'']"
      "[\<lparr>source = ''a'', target = ''b'', type = ''friendship'', weight = 1\<rparr>]"]
  by (simp add: analyzeNetwork_eq finalNode_def newNode_def computed_def outComputed_def
      sampleLibrary_def degreeOnly_def degreeCentrality_def jsDivide_def hasNode_def
      builtGraph_def knownEndpoints_def g_edges_assignCentrality g_nodes_assignCentrality)

theorem analyzeNetwork_independent_counterexample:
  "centralityOf failingInDegree outDegreeCentrality (builtGraph [newNode ''a'' ''Ann''] [])
     = Some (\<lambda>i. Some (Fin 1)) \<and>
   map outDegree (nodes (projr (analyzeNetwork failingInDegree wholeToString
      [newNode ''a'' ''Ann''] []))) = [Some (Fin 0)]"
  by (simp add: analyzeNetwork_eq finalNode_def newNode_def outComputed_def failingInDegree_def)

section \<open>The edge list of the result\<close>

text \<open>
  C5. analyzeNetwork returns the edge list it was given, unchanged; the graph it built
  holds the edges of that list whose two endpoints are ids of the node list. An edge
  to an unknown id is in the first and not in the second.
\<close>

theorem analyzeNetwork_edges_passthrough:
  "\<exists>r. analyzeNetwork lib numberToString ns es = Inr r \<and>
       edges r = es \<and>
       g_edges (graph r) = filter (knownEndpoints ns) es"
  unfolding analyzeNetwork_eq
  by (simp add: g_edges_communityStage g_edges_centralityStages builtGraph_def)

theorem analyzeNetwork_edges_filtered_counterexample:
  "edges (projr (analyzeNetwork sampleLibrary wholeToString [newNode ''a'' ''Ann'']
      [\<lparr>source = ''a'', target = ''z'', type = ''general'', weight = 1\<rparr>]))
     = [\<lparr>source = ''a'', target = ''z'', type = ''general'', weight = 1\<rparr>] \<and>
   g_edges (graph (projr (analyzeNetwork sampleLibrary wholeToString [newNode ''a'' ''Ann'']
      [\<lparr>source = ''a'', target = ''z'', type = ''general'', weight = 1\<rparr>]))) = [] \<and>
   \<not> knownEndpoints [newNode ''a'' ''Ann'']
       \<lparr>source = ''a'', target = ''z'', type = ''general'', weight = 1\<rparr>"
  unfolding analyzeNetwork_eq
  by (simp add: g_edges_communityStage g_edges_centralityStages builtGraph_def
      knownEndpoints_def newNode_def)

section \<open>Merging the edges\<close>

lemma find_snoc:
  "find P (xs @ [x]) = (case find P xs of None \<Rightarrow> (if P x then Some x else None) | Some y \<Rightarrow> Some y)"
  by (induction xs) simp_all

lemma map_of_mergeEdge:
  "map_of (mergeEdge key al x) =
     (map_of al)(key x \<mapsto> (case map_of al (key x) of
                               None \<Rightarrow> x
                             | Some ex \<Rightarrow> ex\<lparr>weight := weight ex + weight x\<rparr>))"
  by (simp add: mergeEdge_def update_conv' split: option.splits)

lemma distinct_foldl_mergeEdge: "distinct (map fst (foldl (mergeEdge key) [] es))"
proof (induction es rule: rev_induct)
  case Nil
  show ?case by simp
next
  case (snoc x es)
  then show ?case
    by (simp add: mergeEdge_def distinct_update split: option.splits)
qed

text \<open>
  The entry of a key after the loop: the first tuple with that key, carrying the sum of
  the weights of all tuples with that key.
\<close>

lemma map_of_foldl_mergeEdge:
  "map_of (foldl (mergeEdge key) [] es) k =
     map_option (\<lambda>r. r\<lparr>weight := sum_list (map weight (filter (\<lambda>q. key q = k) es))\<rparr>)
       (find (\<lambda>r. key r = k) es)"
proof (induction es rule: rev_induct)
  case Nil
  show ?case by simp
next
  case (snoc x es)
  show ?case
  proof (cases "key x = k")
    case True
    show ?thesis
    proof (cases "find (\<lambda>r. key r = k) es")
      case None
      then have "filter (\<lambda>q. key q = k) es = []"
        by (simp add: find_None_iff filter_empty_conv)
      with None True snoc.IH show ?thesis
        by (simp add: map_of_mergeEdge find_snoc)
    next
      case (Some r)
      with True snoc.IH show ?thesis
        by (simp add: map_of_mergeEdge find_snoc)
    qed
  next
    case False
    with snoc.IH show ?thesis
      by (cases "find (\<lambda>r. key r = k) es") (simp_all add: map_of_mergeEdge find_snoc)
  qed
qed

lemma mergeEdges_entry:
  assumes "(k, e) \<in> set (foldl (mergeEdge key) [] es)"
  shows "\<exists>r\<in>set es. key r = k \<and> triple e = triple r \<and>
           weight e = sum_list (map weight (filter (\<lambda>q. key q = k) es))"
proof -
  from assms have "map_of (foldl (mergeEdge key) [] es) k = Some e"
    by (simp add: distinct_foldl_mergeEdge)
  then obtain r where r: "find (\<lambda>r. key r = k) es = Some r"
    and e: "e = r\<lparr>weight := sum_list (map weight (filter (\<lambda>q. key q = k) es))\<rparr>"
    by (auto simp: map_of_foldl_mergeEdge)
  from r have "r \<in> set es" "key r = k"
    by (auto simp: find_Some_iff)
  with e show ?thesis by (auto simp: triple_def)
qed

text \<open>
  When the key strings of the tuples tell their triples apart, the merged list has one
  edge for each triple of a tuple, and its weight is the sum of the weights of the
  tuples with that triple.
\<close>

lemma mergeEdges_sum:
  assumes key: "\<And>e e'. e \<in> set es \<Longrightarrow> e' \<in> set es \<Longrightarrow> (key e = key e') = (triple e = triple e')"
  shows "distinct (map triple (mergeEdges key es))"
    and "set (map triple (mergeEdges key es)) = set (map triple es)"
    and "\<forall>e\<in>set (mergeEdges key es).
           weight e = sum_list (map weight (filter (\<lambda>r. triple r = triple e) es))"
proof -
  let ?al = "foldl (mergeEdge key) [] es"
  have d: "distinct (map fst ?al)" by (rule distinct_foldl_mergeEdge)
  then have dal: "distinct ?al" by (simp add: distinct_map)
  have inj: "inj_on (\<lambda>p. triple (snd p)) (set ?al)"
  proof (rule inj_onI)
    fix p q assume p: "p \<in> set ?al" and q: "q \<in> set ?al"
      and eq: "triple (snd p) = triple (snd q)"
    obtain k e where pk: "p = (k, e)" by (cases p)
    obtain k' e' where qk: "q = (k', e')" by (cases q)
    from mergeEdges_entry [of k e key es] p pk obtain r where
      r: "r \<in> set es" "key r = k" "triple e = triple r" by auto
    from mergeEdges_entry [of k' e' key es] q qk obtain r' where
      r': "r' \<in> set es" "key r' = k'" "triple e' = triple r'" by auto
    from eq pk qk r r' have "triple r = triple r'" by simp
    with key [OF r(1) r'(1)] r r' have "k = k'" by simp
    with d p q pk qk have "e = e'"
      by (metis map_of_is_SomeI option.inject)
    with \<open>k = k'\<close> pk qk show "p = q" by simp
  qed
  from dal inj have "distinct (map (\<lambda>p. triple (snd p)) ?al)"
    by (simp add: distinct_map)
  then show "distinct (map triple (mergeEdges key es))"
    by (simp add: mergeEdges_def comp_def)
  show "set (map triple (mergeEdges key es)) = set (map triple es)"
  proof (rule set_eqI, rule iffI)
    fix t assume "t \<in> set (map triple (mergeEdges key es))"
    then obtain k e where "(k, e) \<in> set ?al" "t = triple e"
      by (auto simp: mergeEdges_def)
    with mergeEdges_entry [of k e key es] show "t \<in> set (map triple es)"
      by auto
  next
    fix t assume "t \<in> set (map triple es)"
    then obtain r where r: "r \<in> set es" "t = triple r" by auto
    then obtain r0 where r0: "find (\<lambda>q. key q = key r) es = Some r0"
      by (cases "find (\<lambda>q. key q = key r) es") (auto simp: find_None_iff)
    then have "r0 \<in> set es" "key r0 = key r"
      by (auto simp: find_Some_iff)
    with key [OF this(1) r(1)] have t0: "triple r0 = triple r" by simp
    from r0 have "map_of ?al (key r)
        = Some (r0\<lparr>weight := sum_list (map weight (filter (\<lambda>q. key q = key r) es))\<rparr>)"
      by (simp add: map_of_foldl_mergeEdge)
    then have "(key r, r0\<lparr>weight := sum_list (map weight (filter (\<lambda>q. key q = key r) es))\<rparr>)
        \<in> set ?al"
      by (rule map_of_SomeD)
    then have "triple (r0\<lparr>weight := sum_list (map weight (filter (\<lambda>q. key q = key r) es))\<rparr>)
        \<in> set (map triple (mergeEdges key es))"
      by (force simp: mergeEdges_def)
    with t0 r show "t \<in> set (map triple (mergeEdges key es))"
      by (simp add: triple_def)
  qed
  show "\<forall>e\<in>set (mergeEdges key es).
           weight e = sum_list (map weight (filter (\<lambda>r. triple r = triple e) es))"
  proof
    fix e assume "e \<in> set (mergeEdges key es)"
    then obtain k where "(k, e) \<in> set ?al"
      by (auto simp: mergeEdges_def)
    from mergeEdges_entry [OF this] obtain r where r: "r \<in> set es" "key r = k"
      "triple e = triple r"
      and w: "weight e = sum_list (map weight (filter (\<lambda>q. key q = k) es))" by auto
    have "filter (\<lambda>q. key q = k) es = filter (\<lambda>q. triple q = triple e) es"
      using key [OF _ r(1)] r by (intro filter_cong) auto
    with w show "weight e = sum_list (map weight (filter (\<lambda>r. triple r = triple e) es))"
      by simp
  qed
qed

text \<open>
  The keys of \<open>processWithGemini\<close> tell the triples apart when the ids hold no
  colon, as the ids \<open>STU_\<close> and a UUID do.
\<close>

lemma colon_split:
  assumes "CHR '':'' \<notin> set a" and "CHR '':'' \<notin> set a'"
    and eq: "a @ CHR '':'' # x = a' @ CHR '':'' # x'"
  shows "a = a' \<and> x = x'"
proof -
  have tw: "takeWhile (\<lambda>c. c \<noteq> CHR '':'') (b @ CHR '':'' # y) = b" if "CHR '':'' \<notin> set b" for b y
    using that by (simp add: takeWhile_tail takeWhile_eq_all_conv) blast
  from tw [OF assms(1), of x] tw [OF assms(2), of x'] eq have "a = a'" by simp
  with eq show ?thesis by simp
qed

lemma geminiKey_triple:
  assumes "CHR '':'' \<notin> set (source e)" "CHR '':'' \<notin> set (target e)"
    and "CHR '':'' \<notin> set (source e')" "CHR '':'' \<notin> set (target e')"
  shows "(geminiKey e = geminiKey e') = (triple e = triple e')"
proof
  assume "geminiKey e = geminiKey e'"
  then have k: "source e @ CHR '':'' # (CHR '':'' # target e @ CHR '':'' # CHR '':'' # type e)
      = source e' @ CHR '':'' # (CHR '':'' # target e' @ CHR '':'' # CHR '':'' # type e')"
    by (simp add: geminiKey_def)
  from colon_split [OF assms(1) assms(3) k] have s: "source e = source e'"
    and "target e @ CHR '':'' # (CHR '':'' # type e) = target e' @ CHR '':'' # (CHR '':'' # type e')"
    by simp_all
  from colon_split [OF assms(2) assms(4) this(2)] have "target e = target e'" "type e = type e'"
    by simp_all
  with s show "triple e = triple e'" by (simp add: triple_def)
next
  assume "triple e = triple e'"
  then show "geminiKey e = geminiKey e'" by (simp add: triple_def geminiKey_def)
qed

lemma resolvedEdges_ids:
  assumes "e \<in> set (resolvedEdges randomUUID students relationships)"
  shows "\<exists>j k. source e = ''STU_'' @ randomUUID j \<and> target e = ''STU_'' @ randomUUID k"
proof -
  let ?names = "canonicalNameSet students (canonicalEdges relationships)"
  let ?m = "map_of (zip ?names (geminiIds randomUUID ?names))"
  from assms obtain ce where "resolveEdge ?m ce = Some e"
    by (auto simp: resolvedEdges_def geminiNameToId_def Let_def List.map_filter_def)
  then have "?m (source ce) = Some (source e)" "?m (target ce) = Some (target e)"
    by (auto simp: resolveEdge_def split: option.splits if_splits)
  then have "source e \<in> set (geminiIds randomUUID ?names)"
    "target e \<in> set (geminiIds randomUUID ?names)"
    by (auto dest!: map_of_SomeD set_zip_rightD)
  then show ?thesis by (auto simp: geminiIds_def)
qed

lemma processWithGemini_merge:
  assumes "\<forall>k. CHR '':'' \<notin> set (randomUUID k)"
  shows "distinct (map triple (edges (processWithGemini randomUUID students relationships))) \<and>
     (\<forall>e\<in>set (edges (processWithGemini randomUUID students relationships)).
        weight e = sum_list (map weight (filter (\<lambda>r. triple r = triple e)
                      (resolvedEdges randomUUID students relationships))))"
proof -
  let ?es = "resolvedEdges randomUUID students relationships"
  have free: "CHR '':'' \<notin> set (source e) \<and> CHR '':'' \<notin> set (target e)" if "e \<in> set ?es" for e
    using resolvedEdges_ids [OF that] assms by auto
  have key: "(geminiKey e = geminiKey e') = (triple e = triple e')"
    if "e \<in> set ?es" "e' \<in> set ?es" for e e'
    using free [OF that(1)] free [OF that(2)] by (intro geminiKey_triple) simp_all
  from mergeEdges_sum(1) [of ?es geminiKey, OF key] mergeEdges_sum(3) [of ?es geminiKey, OF key]
  show ?thesis
    by (simp add: processWithGemini_def Let_def)
qed

lemma processWithGemini_merge_example:
  "edges (processWithGemini sampleUUID []
     [Some \<lparr>r_from = Val ''A'', r_to = Val ''B'', r_type = Val ''friendship'',
            r_weight = Val (Fin 1)\<rparr>,
      Some \<lparr>r_from = Val ''A'', r_to = Val ''B'', r_type = Val ''friendship'',
            r_weight = Val (Fin 1)\<rparr>])
   = [\<lparr>source = ''STU_uuid-'', target = ''STU_uuid-0'', type = ''friendship'', weight = 2\<rparr>]"
  by code_simp

text \<open>
  C6. In \<open>processCsvData\<close> the key joins source, target and type with hyphens. The
  row of Anne-Marie naming Lee and the row of Anne naming Marie-Lee give two tuples
  with different triples and the same key: the result has one edge, from Anne-Marie to
  Lee with weight 2, and no edge from Anne to Marie-Lee.
\<close>

theorem processCsvData_hyphen_names:
  "snd (foldl (csvRow [] ''name'' [''friend'']) ([], [])
      [[(''name'', ''Anne-Marie''), (''friend'', ''Lee'')],
       [(''name'', ''Anne''), (''friend'', ''Marie-Lee'')]])
   = [\<lparr>source = ''Anne-Marie'', target = ''Lee'', type = ''general'', weight = 1\<rparr>,
      \<lparr>source = ''Anne'', target = ''Marie-Lee'', type = ''general'', weight = 1\<rparr>] \<and>
   map_sum id edges (processCsvData []
      [[(''name'', ''Anne-Marie''), (''friend'', ''Lee'')],
       [(''name'', ''Anne''), (''friend'', ''Marie-Lee'')]])
   = Inr [\<lparr>source = ''Anne-Marie'', target = ''Lee'', type = ''general'', weight = 2\<rparr>]"
  by code_simp

section \<open>The relationship normalizer keeps, drops and coerces\<close>
















section \<open>Degrees and the isolated nodes\<close>

lemma orZero_notNegative: "notNegative v \<Longrightarrow> geZero (Some (orZero (Some v)))"
  by (cases v) simp_all

lemma geZero_orZero_None: "geZero (Some (orZero None))"
  by simp

lemma degreeCentrality_notNegative:
  "degreeCentrality endpoint g i = Some v \<Longrightarrow> notNegative v"
  by (auto simp: degreeCentrality_def jsDivide_def split: if_splits)

text \<open>
  C8. When the degree functions of the library return no negative value, every node
  of the result has an in-degree and an out-degree that are at least 0, and a node is
  in the isolated list exactly when it is a node of the result with in-degree 0,
  whatever its out-degree.
\<close>

theorem analyzeNetwork_degrees_and_isolated:
  assumes din: "\<forall>g m i v. centralityOf lib inDegreeCentrality g = Some m \<longrightarrow> m i = Some v \<longrightarrow>
                  notNegative v"
    and dout: "\<forall>g m i v. centralityOf lib outDegreeCentrality g = Some m \<longrightarrow> m i = Some v \<longrightarrow>
                  notNegative v"
  shows "\<exists>r. analyzeNetwork lib numberToString ns es = Inr r \<and>
       (\<forall>n\<in>set (nodes r). geZero (inDegree n) \<and> geZero (outDegree n)) \<and>
       (\<forall>n. n \<in> set (isolatedStudents r) \<longleftrightarrow> n \<in> set (nodes r) \<and> inDegree n = Some (Fin 0))"
proof -
  have c_in: "geZero (Some (orZero (computed lib inDegreeCentrality g i)))" for g i
  proof (cases "computed lib inDegreeCentrality g i")
    case None
    then show ?thesis by simp
  next
    case (Some v)
    with din have "notNegative v"
      by (auto simp: computed_def split: option.splits)
    with Some show ?thesis by (simp add: orZero_notNegative)
  qed
  have c_out: "geZero (Some (orZero (outComputed lib g i)))" for g i
  proof (cases "outComputed lib g i")
    case None
    then show ?thesis by simp
  next
    case (Some v)
    with dout have "notNegative v"
      by (auto simp: outComputed_def computed_def split: option.splits)
    with Some show ?thesis by (simp add: orZero_notNegative)
  qed
  show ?thesis
    unfolding analyzeNetwork_eq
    by (auto simp: finalNode_def c_in c_out)
qed

theorem analyzeNetwork_degrees_and_isolated_witness:
  "map (\<lambda>n. (node_id n, inDegree n, outDegree n))
     (nodes (projr (analyzeNetwork sampleLibrary wholeToString
        [newNode ''a'' ''Alice'', newNode ''b'' ''Bob'']
        [\<lparr>source = ''a'', target = ''b'', type = ''friendship'', weight = 1\<rparr>])))
   = [(''a'', Some (Fin 0), Some (Fin 1)), (''b'', Some (Fin 1), Some (Fin 0))] \<and>
   map node_id
     (isolatedStudents (projr (analyzeNetwork sampleLibrary wholeToString
        [newNode ''a'' ''Alice'', newNode ''b'' ''Bob'']
        [\<lparr>source = ''a'', target = ''b'', type = ''friendship'', weight = 1\<rparr>])))
   = [''a'']"
proof -
  have din: "\<forall>g m i v. centralityOf sampleLibrary inDegreeCentrality g = Some m \<longrightarrow>
      m i = Some v \<longrightarrow> notNegative v"
    by (auto simp: sampleLibrary_def degreeOnly_def dest: degreeCentrality_notNegative)
  have dout: "\<forall>g m i v. centralityOf sampleLibrary outDegreeCentrality g = Some m \<longrightarrow>
      m i = Some v \<longrightarrow> notNegative v"
    by (auto simp: sampleLibrary_def degreeOnly_def dest: degreeCentrality_notNegative)
  from analyzeNetwork_degrees_and_isolated [OF din dout, of wholeToString
      "[newNode ''a'' ''Alice'', newNode ''b'' ''Bob'']"
      "[\<lparr>source = ''a'', target = ''b'', type = ''friendship'', weight = 1\<rparr>]"]
  show ?thesis
    by (simp add: analyzeNetwork_eq finalNode_def newNode_def computed_def outComputed_def
      sampleLibrary_def degreeOnly_def degreeCentrality_def jsDivide_def hasNode_def
      builtGraph_def knownEndpoints_def g_edges_assignCentrality g_nodes_assignCentrality)
qed

section \<open>Node ids are unique in the result\<close>

text \<open>
  C9. For every library and every input, also one with repeated ids, analyzeNetwork
  returns a result; the ids of its node list are pairwise different and are the ids of
  the input; each node of the result carries the name, label and group of the first
  input node with its id.
\<close>

theorem analyzeNetwork_unique_ids:
  "\<exists>r. analyzeNetwork lib numberToString ns es = Inr r \<and>
       distinct (map node_id (nodes r)) \<and>
       set (map node_id (nodes r)) = node_id ` set ns \<and>
       (\<forall>n\<in>set (nodes r). \<exists>m. find (\<lambda>m. node_id m = node_id n) ns = Some m \<and>
           name n = name m \<and> label n = label m \<and> group n = group m)"
proof -
  let ?f = "finalNode lib (communitiesOf lib numberToString ns es) (builtGraph ns es)"
  have ids: "map node_id (map ?f (firstOccurrences [] ns)) = map node_id (firstOccurrences [] ns)"
    by (simp add: finalNode_def comp_def)
  have d: "distinct (map node_id (map ?f (firstOccurrences [] ns)))"
    unfolding ids by (rule firstOccurrences_distinct)
  have s: "set (map node_id (map ?f (firstOccurrences [] ns))) = node_id ` set ns"
    unfolding ids using firstOccurrences_ids [of "[]" ns] by simp
  have f: "\<forall>n\<in>set (map ?f (firstOccurrences [] ns)).
      \<exists>m. find (\<lambda>m. node_id m = node_id n) ns = Some m \<and>
          name n = name m \<and> label n = label m \<and> group n = group m"
  proof
    fix n assume "n \<in> set (map ?f (firstOccurrences [] ns))"
    then obtain m where m: "m \<in> set (firstOccurrences [] ns)" and n: "n = ?f m" by auto
    from firstOccurrences_find [OF m] n
    show "\<exists>m. find (\<lambda>m. node_id m = node_id n) ns = Some m \<and>
          name n = name m \<and> label n = label m \<and> group n = group m"
      by (simp add: finalNode_def)
  qed
  from d s f show ?thesis
    unfolding analyzeNetwork_eq by (simp add: image_image)
qed

theorem analyzeNetwork_unique_ids_witness:
  "map (\<lambda>n. (node_id n, name n))
     (nodes (projr (analyzeNetwork sampleLibrary wholeToString
        [newNode ''a'' ''Ann'', newNode ''b'' ''Bob'', newNode ''a'' ''Ann again''] [])))
   = [(''a'', ''Ann''), (''b'', ''Bob'')]"
  using analyzeNetwork_unique_ids [of sampleLibrary wholeToString
      "[newNode ''a'' ''Ann'', newNode ''b'' ''Bob'', newNode ''a'' ''Ann again'']" "[]"]
  by (simp add: analyzeNetwork_eq finalNode_def newNode_def)

section \<open>The community label of the result\<close>

text \<open>
  C10. When the community library returns a mapping, every node of the result carries
  the library's number for it, with 1 in place of 0 and of a missing number: the label
  is positive, the library's communities 0 and 1 both come out as 1, and the map from
  the library's numbers to the labels is not injective.
\<close>

theorem analyzeNetwork_community_labels:
  assumes "communitiesOf lib numberToString ns es = Some c"
  shows "\<exists>r. analyzeNetwork lib numberToString ns es = Inr r \<and>
       (\<forall>n\<in>set (nodes r).
          community n = Some (orOne (map_option int (c (node_id n)))) \<and>
          (c (node_id n) = Some 0 \<longrightarrow> community n = Some 1) \<and>
          (c (node_id n) = Some 1 \<longrightarrow> community n = Some 1) \<and>
          (\<exists>l. community n = Some l \<and> 0 < l)) \<and>
       orOne (Some (int 0)) = orOne (Some (int 1)) \<and>
       \<not> inj (\<lambda>k. orOne (Some (int k)))"
proof -
  let ?f = "finalNode lib (Some c) (builtGraph ns es)"
  have pos: "0 < orOne (map_option int x)" for x
    by (cases x) (simp_all add: orOne_def)
  have per_node: "community (?f m) = Some (orOne (map_option int (c (node_id (?f m))))) \<and>
      (c (node_id (?f m)) = Some 0 \<longrightarrow> community (?f m) = Some 1) \<and>
      (c (node_id (?f m)) = Some 1 \<longrightarrow> community (?f m) = Some 1) \<and>
      (\<exists>l. community (?f m) = Some l \<and> 0 < l)" for m
    using pos [of "c (node_id m)"] by (simp add: finalNode_def orOne_def)
  have same: "orOne (Some (int 0)) = orOne (Some (int 1))"
    by (simp add: orOne_def)
  have "\<not> inj (\<lambda>k. orOne (Some (int k)))"
  proof
    assume "inj (\<lambda>k. orOne (Some (int k)))"
    from injD [OF this same] show False by simp
  qed
  moreover have "orOne (Some 1) = 1"
    by (simp add: orOne_def)
  ultimately show ?thesis
    unfolding analyzeNetwork_eq assms using same per_node by (simp add: pos)
qed

theorem analyzeNetwork_community_labels_witness:
  "map (\<lambda>n. (node_id n, community n))
     (nodes (projr (analyzeNetwork sampleLibrary wholeToString
        [newNode ''a'' ''Ann'', newNode ''b'' ''Bob'', newNode ''c'' ''Cy''] [])))
   = [(''a'', Some 1), (''b'', Some 1), (''c'', Some 2)]"
proof -
  let ?ns = "[newNode ''a'' ''Ann'', newNode ''b'' ''Bob'', newNode ''c'' ''Cy'']"
  have c: "communitiesOf sampleLibrary wholeToString ?ns []
           = Some (map_of [(''a'', 0), (''b'', 1), (''c'', 2)])"
    by (simp add: communitiesOf_def sampleLibrary_def labelByOrder_def graph_copy_def
        keys_centralityStages length_centralityStages builtGraph_def newNode_def
        numeral_2_eq_2)
  from analyzeNetwork_community_labels [OF c] show ?thesis
    by (simp add: analyzeNetwork_eq c finalNode_def newNode_def orOne_def)
qed

end
